theory Spec2Isabelle
  imports Main "HOL-Library.Word"
begin

section \<open>The native data channel\<close>

text \<open>
  \<^verbatim>\<open>src/interfaces/rtc_data_channel.cc\<close> wraps a native
  \<^verbatim>\<open>webrtc::DataChannelInterface\<close>. The native object belongs to the WebRTC
  library: the binding reads its attributes, registers and unregisters an observer on
  it, and calls its \<^verbatim>\<open>Send\<close> and \<^verbatim>\<open>Close\<close>. The record below holds
  what the binding can read; \<open>observer\<close> says whether an observer is registered and
  \<open>sent\<close> lists the buffers a test double has been handed. What \<^verbatim>\<open>Send\<close> and
  \<^verbatim>\<open>Close\<close> do to the native object is not this repository's code, so both are
  parameters (\<open>jSend\<close>, \<open>jClose\<close>) of every function that reaches them.

  The attributes have the types of the native interface: \<^verbatim>\<open>id()\<close> is an
  \<^verbatim>\<open>int\<close>, the two retransmission limits are \<^verbatim>\<open>uint16_t\<close>,
  \<^verbatim>\<open>buffered_amount()\<close> is a \<^verbatim>\<open>uint64_t\<close>. The wrapper's cached copies are
  declared in \<^verbatim>\<open>rtc_data_channel.h\<close>, which is not among the sources; they are
  given the type of the value assigned to them.
\<close>

datatype DataState = kConnecting | kOpen | kClosing | kClosed

text \<open>
  \<^verbatim>\<open>webrtc::DataBuffer\<close>: the payload as C \<^verbatim>\<open>char\<close>s and the binary flag.
\<close>

record DataBuffer =
  data :: "char list"
  binary :: bool

record DataChannelInterface =
  state :: DataState
  id' :: int
  label :: string
  maxRetransmitTime :: "16 word"
  maxRetransmits :: "16 word"
  negotiated :: bool
  ordered :: bool
  protocol :: string
  buffered_amount :: "64 word"
  observer :: bool
  sent :: "DataBuffer list"

type_synonym native_Send = "DataChannelInterface \<Rightarrow> DataBuffer \<Rightarrow> bool \<times> DataChannelInterface"
type_synonym native_Close = "DataChannelInterface \<Rightarrow> DataChannelInterface"

section \<open>Values of the scripting host\<close>

text \<open>
  The argument of \<^verbatim>\<open>send\<close> and the arguments of the listener callbacks. A string
  carries its UTF-8 code units (what \<^verbatim>\<open>Utf8Value()\<close> returns); a typed array and
  a data view carry the bytes of their underlying \<^verbatim>\<open>ArrayBuffer\<close>, their byte
  offset and their byte length; \<open>JsObject\<close> is any other value (a number wrapped in
  an object, a plain object, a function).
\<close>

datatype js_value =
    JsUndefined
  | JsBoolean bool
  | JsNumber int
  | JsString string
  | JsArrayBuffer "char list"
  | JsTypedArray "char list" nat nat
  | JsDataView "char list" nat nat
  | JsDOMException string string
  | JsObject

text \<open>An exception left pending for the caller by \<^verbatim>\<open>ThrowAsJavaScriptException()\<close>.\<close>

datatype js_error = TypeError string

text \<open>What C++ leaves undefined: a read through a null pointer, a read past an allocation.\<close>

datatype fault = NullDereference | BufferOverread

fun IsString :: "js_value \<Rightarrow> bool" where
  "IsString (JsString s) = True"
| "IsString v = False"

fun IsTypedArray :: "js_value \<Rightarrow> bool" where
  "IsTypedArray (JsTypedArray b off len) = True"
| "IsTypedArray v = False"

fun IsDataView :: "js_value \<Rightarrow> bool" where
  "IsDataView (JsDataView b off len) = True"
| "IsDataView v = False"

fun IsArrayBuffer :: "js_value \<Rightarrow> bool" where
  "IsArrayBuffer (JsArrayBuffer b) = True"
| "IsArrayBuffer v = False"

text \<open>
  \<^verbatim>\<open>ErrorFactory::napi::CreateInvalidStateError\<close> is declared in
  \<^verbatim>\<open>src/node/error_factory.h\<close>, which is not among the sources. It builds the
  error object and returns it; the caller in \<^verbatim>\<open>Send\<close> drops the result (its
  comment reads \<^verbatim>\<open>FIXME(mroberts): How to throw this?\<close>).
\<close>

definition CreateInvalidStateError :: "string \<Rightarrow> js_value" where
  "CreateInvalidStateError message = JsDOMException ''InvalidStateError'' message"

section \<open>The wrapper object\<close>

datatype BinaryType = kArrayBuffer | kBlob

text \<open>
  The two closures the observers put on the event queue: one calls
  \<^verbatim>\<open>HandleStateChange\<close> with the captured state, the other
  \<^verbatim>\<open>HandleMessage\<close> with the captured buffer.
\<close>

datatype event = StateChangeEvent DataState | MessageEvent DataBuffer

text \<open>
  \<^verbatim>\<open>RTCDataChannel\<close>. The reference \<^verbatim>\<open>_jingleDataChannel\<close> is \<open>None\<close> when it
  is \<^verbatim>\<open>nullptr\<close>. The last three fields belong to the base class
  \<^verbatim>\<open>AsyncObjectWrapWithLoop\<close>: the queue of dispatched events, the flag set by
  \<^verbatim>\<open>Stop()\<close>, and the calls made into the listeners by \<^verbatim>\<open>MakeCallback\<close>, oldest
  first.
\<close>

record RTCDataChannel =
  jingleDataChannel :: "DataChannelInterface option"
  binaryType :: BinaryType
  cached_id :: int
  cached_label :: string
  cached_max_packet_life_time :: "16 word"
  cached_max_retransmits :: "16 word"
  cached_negotiated :: bool
  cached_ordered :: bool
  cached_protocol :: string
  cached_buffered_amount :: "64 word"
  events :: "event list"
  should_stop :: bool
  callbacks :: "(string \<times> js_value list) list"

text \<open>
  Modelled from the spec: the event loop of \<^verbatim>\<open>AsyncObjectWrapWithLoop\<close>
  (\<^verbatim>\<open>Dispatch\<close>, \<^verbatim>\<open>Stop\<close> and the loop that drains the queue), which is not among
  the sources. Section 4.5: events are queued and drained by the consuming context, in
  the order they were produced, and nothing is delivered after the loop was stopped.
\<close>

definition Dispatch :: "RTCDataChannel \<Rightarrow> event \<Rightarrow> RTCDataChannel" where
  "Dispatch c e = c\<lparr>events := events c @ [e]\<rparr>"

definition Stop :: "RTCDataChannel \<Rightarrow> RTCDataChannel" where
  "Stop c = c\<lparr>should_stop := True\<rparr>"

text \<open>
  \<^verbatim>\<open>MakeCallback(name, args)\<close> calls the listener stored under that name; the call
  is recorded.
\<close>

definition MakeCallback :: "RTCDataChannel \<Rightarrow> string \<Rightarrow> js_value list \<Rightarrow> RTCDataChannel" where
  "MakeCallback c name args = c\<lparr>callbacks := callbacks c @ [(name, args)]\<rparr>"

subsection \<open>The observer that stands in before the wrapper exists\<close>

record DataChannelObserver =
  obs_jingleDataChannel :: DataChannelInterface
  obs_events :: "event list"

definition new_DataChannelObserver :: "DataChannelInterface \<Rightarrow> DataChannelObserver" where
  "new_DataChannelObserver j =
     \<lparr>obs_jingleDataChannel = j\<lparr>observer := True\<rparr>, obs_events = []\<rparr>"

definition Enqueue :: "DataChannelObserver \<Rightarrow> event \<Rightarrow> DataChannelObserver" where
  "Enqueue ob e = ob\<lparr>obs_events := obs_events ob @ [e]\<rparr>"

definition DataChannelObserver_OnStateChange :: "DataChannelObserver \<Rightarrow> DataChannelObserver" where
  "DataChannelObserver_OnStateChange ob =
     (let state = state (obs_jingleDataChannel ob) in Enqueue ob (StateChangeEvent state))"

definition DataChannelObserver_OnMessage :: "DataChannelObserver \<Rightarrow> DataBuffer \<Rightarrow> DataChannelObserver" where
  "DataChannelObserver_OnMessage ob buffer = Enqueue ob (MessageEvent buffer)"

text \<open>
  \<^verbatim>\<open>requeue\<close>: \<^verbatim>\<open>while (auto event = observer.Dequeue()) channel.Dispatch(event)\<close>,
  as a recursion over the observer's queue from its front.
\<close>

fun requeue :: "event list \<Rightarrow> RTCDataChannel \<Rightarrow> RTCDataChannel" where
  "requeue [] channel = channel"
| "requeue (event # rest) channel = requeue rest (Dispatch channel event)"

text \<open>
  The constructor: take the native channel from the observer, register the wrapper as
  its observer, re-queue the cached events, then zero the cached attributes. (Called
  without \<^verbatim>\<open>new\<close> it throws and builds nothing; that path is left out.)
\<close>

definition new_RTCDataChannel :: "DataChannelObserver \<Rightarrow> RTCDataChannel" where
  "new_RTCDataChannel ob =
     (let c = \<lparr>jingleDataChannel = Some ((obs_jingleDataChannel ob)\<lparr>observer := True\<rparr>),
               binaryType = kArrayBuffer,
               cached_id = 0, cached_label = [],
               cached_max_packet_life_time = 0, cached_max_retransmits = 0,
               cached_negotiated = False, cached_ordered = False,
               cached_protocol = [], cached_buffered_amount = 0,
               events = [], should_stop = False, callbacks = []\<rparr>;
          c = requeue (obs_events ob) c
      in c\<lparr>cached_id := 0, cached_max_packet_life_time := 0, cached_max_retransmits := 0,
           cached_negotiated := False, cached_ordered := False, cached_buffered_amount := 0\<rparr>)"

subsection \<open>Teardown\<close>

definition CleanupInternals :: "RTCDataChannel \<Rightarrow> RTCDataChannel" where
  "CleanupInternals c =
     (case jingleDataChannel c of
        None \<Rightarrow> c
      | Some j0 \<Rightarrow>
          (let j = j0\<lparr>observer := False\<rparr>
           in c\<lparr>cached_id := id' j,
                cached_label := label j,
                cached_max_packet_life_time := maxRetransmitTime j,
                cached_max_retransmits := maxRetransmits j,
                cached_negotiated := negotiated j,
                cached_ordered := ordered j,
                cached_protocol := protocol j,
                cached_buffered_amount := buffered_amount j,
                jingleDataChannel := None\<rparr>))"

definition OnPeerConnectionClosed :: "RTCDataChannel \<Rightarrow> RTCDataChannel" where
  "OnPeerConnectionClosed c =
     (if jingleDataChannel c \<noteq> None then Stop (CleanupInternals c) else c)"

subsection \<open>Events from the native channel\<close>

text \<open>
  \<^verbatim>\<open>OnStateChange\<close> reads the state through \<^verbatim>\<open>_jingleDataChannel\<close> without a
  null check.
\<close>

definition OnStateChange :: "RTCDataChannel \<Rightarrow> fault + RTCDataChannel" where
  "OnStateChange c =
     (case jingleDataChannel c of
        None \<Rightarrow> Inl NullDereference
      | Some j \<Rightarrow>
          (let state = state j;
               c = (if state = kClosed then CleanupInternals c else c)
           in Inr (Dispatch c (StateChangeEvent state))))"

definition HandleStateChange :: "RTCDataChannel \<Rightarrow> DataState \<Rightarrow> RTCDataChannel" where
  "HandleStateChange channel st =
     (let channel =
            (if st = kClosed then MakeCallback channel ''onstatechange'' [JsString ''closed'']
             else if st = kOpen then MakeCallback channel ''onstatechange'' [JsString ''open'']
             else channel)
      in if st = kClosed then Stop channel else channel)"

definition OnMessage :: "RTCDataChannel \<Rightarrow> DataBuffer \<Rightarrow> RTCDataChannel" where
  "OnMessage c buffer = Dispatch c (MessageEvent buffer)"

text \<open>
  \<^verbatim>\<open>Napi::String::New(env, const char*)\<close> takes a NUL-terminated string: it reads
  up to the first NUL. \<^verbatim>\<open>HandleMessage\<close> hands it a copy of the payload, an
  allocation of exactly \<^verbatim>\<open>size\<close> bytes with no terminator added, so without a NUL
  among the payload's bytes the read runs past the allocation. The string carries the
  bytes read as they are; the host's replacement of bytes that are not valid UTF-8 is
  not modelled.
\<close>

definition String_New :: "char list \<Rightarrow> fault + js_value" where
  "String_New message =
     (if CHR 0x00 \<in> set message
      then Inr (JsString (takeWhile (\<lambda>ch. ch \<noteq> CHR 0x00) message))
      else Inl BufferOverread)"

definition HandleMessage :: "RTCDataChannel \<Rightarrow> DataBuffer \<Rightarrow> fault + RTCDataChannel" where
  "HandleMessage channel buffer =
     (let binary = binary buffer;
          size = length (data buffer);
          message = take size (data buffer)
      in if binary
         then Inr (MakeCallback channel ''onmessage'' [JsArrayBuffer (take size message)])
         else (case String_New message of
                 Inl f \<Rightarrow> Inl f
               | Inr str \<Rightarrow> Inr (MakeCallback channel ''onmessage'' [str])))"

subsection \<open>Methods and accessors\<close>

text \<open>
  \<^verbatim>\<open>Send\<close> returns \<^verbatim>\<open>undefined\<close> on every path; \<open>Inl\<close> is the exception it
  leaves pending. The result of the native \<^verbatim>\<open>Send\<close> is not looked at.
  \<open>Utf8Value\<close> is applied to strings only. A view's bytes are \<^verbatim>\<open>byte_length\<close>
  bytes from \<^verbatim>\<open>content + byte_offset\<close>; the host keeps a view inside its buffer.
\<close>

fun Utf8Value :: "js_value \<Rightarrow> string" where
  "Utf8Value (JsString s) = s"
| "Utf8Value v = []"

definition Send ::
  "native_Send \<Rightarrow> RTCDataChannel \<Rightarrow> js_value \<Rightarrow> (js_error + js_value) \<times> RTCDataChannel" where
  "Send jSend c arg =
     (case jingleDataChannel c of
        Some j \<Rightarrow>
          if state j \<noteq> kOpen
          then (let error = CreateInvalidStateError ''RTCDataChannel.readyState is not 'open''
                in (Inr JsUndefined, c))
          else if IsString arg
          then (let str = Utf8Value arg;
                    buffer = \<lparr>data = str, binary = False\<rparr>;
                    (ok, j) = jSend j buffer
                in (Inr JsUndefined, c\<lparr>jingleDataChannel := Some j\<rparr>))
          else (case (case arg of
                        JsTypedArray arraybuffer byte_offset byte_length \<Rightarrow>
                          Some (arraybuffer, byte_offset, byte_length)
                      | JsDataView arraybuffer byte_offset byte_length \<Rightarrow>
                          Some (arraybuffer, byte_offset, byte_length)
                      | JsArrayBuffer arraybuffer \<Rightarrow>
                          Some (arraybuffer, 0, length arraybuffer)
                      | _ \<Rightarrow> None) of
                  None \<Rightarrow> (Inl (TypeError ''Expected a Blob or ArrayBuffer''), c)
                | Some (content, byte_offset, byte_length) \<Rightarrow>
                    (let buffer = take byte_length (drop byte_offset content);
                         data_buffer = \<lparr>data = buffer, binary = True\<rparr>;
                         (ok, j) = jSend j data_buffer
                     in (Inr JsUndefined, c\<lparr>jingleDataChannel := Some j\<rparr>)))
      | None \<Rightarrow>
          (let error = CreateInvalidStateError ''RTCDataChannel.readyState is not 'open''
           in (Inr JsUndefined, c)))"

definition Close :: "native_Close \<Rightarrow> RTCDataChannel \<Rightarrow> js_value \<times> RTCDataChannel" where
  "Close jClose c =
     (case jingleDataChannel c of
        Some j \<Rightarrow> (JsUndefined, c\<lparr>jingleDataChannel := Some (jClose j)\<rparr>)
      | None \<Rightarrow> (JsUndefined, c))"

text \<open>
  Each accessor returns the C++ value it hands to the conversion macro
  \<^verbatim>\<open>CONVERT_OR_THROW_AND_RETURN_NAPI\<close>.
\<close>

definition GetBufferedAmount :: "RTCDataChannel \<Rightarrow> 64 word" where
  "GetBufferedAmount c =
     (case jingleDataChannel c of Some j \<Rightarrow> buffered_amount j | None \<Rightarrow> cached_buffered_amount c)"

definition GetId :: "RTCDataChannel \<Rightarrow> int" where
  "GetId c = (case jingleDataChannel c of Some j \<Rightarrow> id' j | None \<Rightarrow> cached_id c)"

definition GetLabel :: "RTCDataChannel \<Rightarrow> string" where
  "GetLabel c = (case jingleDataChannel c of Some j \<Rightarrow> label j | None \<Rightarrow> cached_label c)"

definition GetMaxPacketLifeTime :: "RTCDataChannel \<Rightarrow> 16 word" where
  "GetMaxPacketLifeTime c =
     (case jingleDataChannel c of
        Some j \<Rightarrow> maxRetransmitTime j
      | None \<Rightarrow> cached_max_packet_life_time c)"

definition GetMaxRetransmits :: "RTCDataChannel \<Rightarrow> 16 word" where
  "GetMaxRetransmits c =
     (case jingleDataChannel c of Some j \<Rightarrow> maxRetransmits j | None \<Rightarrow> cached_max_retransmits c)"

definition GetNegotiated :: "RTCDataChannel \<Rightarrow> bool" where
  "GetNegotiated c =
     (case jingleDataChannel c of Some j \<Rightarrow> negotiated j | None \<Rightarrow> cached_negotiated c)"

definition GetOrdered :: "RTCDataChannel \<Rightarrow> bool" where
  "GetOrdered c = (case jingleDataChannel c of Some j \<Rightarrow> ordered j | None \<Rightarrow> cached_ordered c)"

definition GetPriority :: "RTCDataChannel \<Rightarrow> string" where
  "GetPriority c = (let priority = ''high'' in priority)"

definition GetProtocol :: "RTCDataChannel \<Rightarrow> string" where
  "GetProtocol c = (case jingleDataChannel c of Some j \<Rightarrow> protocol j | None \<Rightarrow> cached_protocol c)"


definition GetBinaryType :: "RTCDataChannel \<Rightarrow> BinaryType" where
  "GetBinaryType c = binaryType c"

section \<open>Runs of one channel\<close>

text \<open>
  What can happen to a constructed channel, one action at a time: the application calls
  \<^verbatim>\<open>send\<close> or \<^verbatim>\<open>close\<close>, the peer connection is closed, the native channel
  enters a state or receives a message and tells its observer, or the event loop
  dispatches the event at the head of the queue.
\<close>

datatype action =
    CallSend js_value
  | CallClose
  | PeerConnectionClosed
  | StateChanged DataState
  | MessageArrived DataBuffer
  | LoopTurn

text \<open>Running a queued closure calls the handler it names.\<close>

fun deliver :: "event \<Rightarrow> RTCDataChannel \<Rightarrow> fault + RTCDataChannel" where
  "deliver (StateChangeEvent st) c = Inr (HandleStateChange c st)"
| "deliver (MessageEvent buffer) c = HandleMessage c buffer"

text \<open>
  Modelled from the spec: one turn of the event loop of
  \<^verbatim>\<open>AsyncObjectWrapWithLoop\<close>, which is not among the sources. Section 4.5: the
  consuming context takes the oldest queued event; once the loop was stopped it
  delivers nothing.
\<close>

definition dispatch_next :: "RTCDataChannel \<Rightarrow> fault + RTCDataChannel" where
  "dispatch_next c =
     (if should_stop c then Inr c
      else (case events c of
              [] \<Rightarrow> Inr c
            | e # rest \<Rightarrow> deliver e (c\<lparr>events := rest\<rparr>)))"

text \<open>
  The native channel calls only a registered observer, and the wrapper can be reached
  only through the reference it holds: once the reference is released, a state change or
  a message of the native channel is no event of the wrapper.
\<close>

fun step :: "native_Send \<Rightarrow> native_Close \<Rightarrow> action \<Rightarrow> RTCDataChannel \<Rightarrow> fault + RTCDataChannel" where
  "step jSend jClose (CallSend arg) c = Inr (snd (Send jSend c arg))"
| "step jSend jClose CallClose c = Inr (snd (Close jClose c))"
| "step jSend jClose PeerConnectionClosed c = Inr (OnPeerConnectionClosed c)"
| "step jSend jClose (StateChanged st) c =
     (case jingleDataChannel c of
        None \<Rightarrow> Inr c
      | Some j \<Rightarrow>
          (let c = c\<lparr>jingleDataChannel := Some (j\<lparr>state := st\<rparr>)\<rparr>
           in if observer j then OnStateChange c else Inr c))"
| "step jSend jClose (MessageArrived buffer) c =
     (case jingleDataChannel c of
        None \<Rightarrow> Inr c
      | Some j \<Rightarrow> if observer j then Inr (OnMessage c buffer) else Inr c)"
| "step jSend jClose LoopTurn c = dispatch_next c"

fun run :: "native_Send \<Rightarrow> native_Close \<Rightarrow> action list \<Rightarrow> RTCDataChannel \<Rightarrow> fault + RTCDataChannel" where
  "run jSend jClose [] c = Inr c"
| "run jSend jClose (a # as) c =
     (case step jSend jClose a c of
        Inl f \<Rightarrow> Inl f
      | Inr c' \<Rightarrow> run jSend jClose as c')"

subsection \<open>Test doubles\<close>

text \<open>
  Two native \<^verbatim>\<open>Send\<close>s, one that takes every buffer and one whose write fails, a
  native \<^verbatim>\<open>Close\<close> that starts closing, and a native channel in a given state.
\<close>

definition accepting_Send :: native_Send where
  "accepting_Send j buffer = (True, j\<lparr>sent := sent j @ [buffer]\<rparr>)"

definition rejecting_Send :: native_Send where
  "rejecting_Send j buffer = (False, j)"

definition closing_Close :: native_Close where
  "closing_Close j = (if state j = kClosed then j else j\<lparr>state := kClosing\<rparr>)"

definition sample_native :: "DataState \<Rightarrow> DataChannelInterface" where
  "sample_native st =
     \<lparr>state = st, id' = 7, label = ''chat'', maxRetransmitTime = 100, maxRetransmits = 3,
      negotiated = True, ordered = True, protocol = ''json'', buffered_amount = 12,
      observer = False, sent = []\<rparr>"

definition sample_channel :: "DataState \<Rightarrow> RTCDataChannel" where
  "sample_channel st = new_RTCDataChannel (new_DataChannelObserver (sample_native st))"

text \<open>The notification a listener gets when the channel has closed.\<close>

definition closed_notification :: "string \<times> js_value list" where
  "closed_notification = (''onstatechange'', [JsString ''closed''])"

definition sample_observer :: DataChannelObserver where
  "sample_observer =
     DataChannelObserver_OnMessage
       (DataChannelObserver_OnStateChange (new_DataChannelObserver (sample_native kOpen)))
       \<lparr>data = ''hi'', binary = True\<rparr>"

definition sample_actions :: "action list" where
  "sample_actions =
     [LoopTurn,
      MessageArrived \<lparr>data = [CHR ''o'', CHR ''k'', CHR 0x00], binary = False\<rparr>,
      CallClose,
      StateChanged kClosed,
      LoopTurn, LoopTurn, LoopTurn, LoopTurn,
      CallSend (JsString ''late'')]"




subsection \<open>What the properties speak about\<close>

text \<open>The eight attributes that are cached at teardown, as the accessors return them.\<close>

definition read_attributes ::
  "RTCDataChannel \<Rightarrow> int \<times> string \<times> string \<times> bool \<times> bool \<times> 16 word \<times> 16 word \<times> 64 word" where
  "read_attributes c =
     (GetId c, GetLabel c, GetProtocol c, GetOrdered c, GetNegotiated c,
      GetMaxRetransmits c, GetMaxPacketLifeTime c, GetBufferedAmount c)"


text \<open>
  The events of the native channel that reach the wrapper during a run, in the order
  they happen: \<open>announced\<close> is what one action announces to the registered observer.
\<close>

fun announced :: "action \<Rightarrow> RTCDataChannel \<Rightarrow> event list" where
  "announced (StateChanged st) c =
     (case jingleDataChannel c of
        None \<Rightarrow> []
      | Some j \<Rightarrow> if observer j then [StateChangeEvent st] else [])"
| "announced (MessageArrived buffer) c =
     (case jingleDataChannel c of
        None \<Rightarrow> []
      | Some j \<Rightarrow> if observer j then [MessageEvent buffer] else [])"
| "announced a c = []"

fun produced :: "native_Send \<Rightarrow> native_Close \<Rightarrow> action list \<Rightarrow> RTCDataChannel \<Rightarrow> event list" where
  "produced jSend jClose [] c = []"
| "produced jSend jClose (a # as) c =
     (case step jSend jClose a c of
        Inl f \<Rightarrow> []
      | Inr c' \<Rightarrow> announced a c @ produced jSend jClose as c')"

text \<open>The handlers called on a list of events, one after the other.\<close>

fun deliver_all :: "event list \<Rightarrow> RTCDataChannel \<Rightarrow> fault + RTCDataChannel" where
  "deliver_all [] c = Inr c"
| "deliver_all (e # es) c =
     (case deliver e c of
        Inl f \<Rightarrow> Inl f
      | Inr c' \<Rightarrow> deliver_all es c')"

text \<open>
  The invariant behind "closed comes last": the closed notification stands nowhere but
  at the end of the recorded calls, and once it is there the loop is stopped.
\<close>

definition closed_last :: "RTCDataChannel \<Rightarrow> bool" where
  "closed_last c \<longleftrightarrow>
     closed_notification \<notin> set (butlast (callbacks c))
     \<and> (closed_notification \<in> set (callbacks c) \<longrightarrow> should_stop c)"

section \<open>Properties\<close>

subsection \<open>Fields each operation leaves alone\<close>

lemma sample_channel_simp:
  "sample_channel st =
     \<lparr>jingleDataChannel = Some ((sample_native st)\<lparr>observer := True\<rparr>),
      binaryType = kArrayBuffer, cached_id = 0, cached_label = [],
      cached_max_packet_life_time = 0, cached_max_retransmits = 0,
      cached_negotiated = False, cached_ordered = False,
      cached_protocol = [], cached_buffered_amount = 0,
      events = [], should_stop = False, callbacks = []\<rparr>"
  by (simp add: sample_channel_def new_RTCDataChannel_def new_DataChannelObserver_def)

lemma sample_observer_simp:
  "sample_observer =
     \<lparr>obs_jingleDataChannel = (sample_native kOpen)\<lparr>observer := True\<rparr>,
      obs_events = [StateChangeEvent kOpen, MessageEvent \<lparr>data = ''hi'', binary = True\<rparr>]\<rparr>"
  by (simp add: sample_observer_def DataChannelObserver_OnMessage_def
      DataChannelObserver_OnStateChange_def new_DataChannelObserver_def Enqueue_def
      sample_native_def)



lemmas accessor_defs =
  GetId_def GetLabel_def GetProtocol_def GetOrdered_def GetNegotiated_def
  GetMaxRetransmits_def GetMaxPacketLifeTime_def GetBufferedAmount_def

lemma same_binding: "jingleDataChannel c = Some j \<Longrightarrow> c\<lparr>jingleDataChannel := Some j\<rparr> = c"
  by (cases c) simp

lemma CleanupInternals_loop [simp]:
  "events (CleanupInternals c) = events c"
  "should_stop (CleanupInternals c) = should_stop c"
  "callbacks (CleanupInternals c) = callbacks c"
  "jingleDataChannel (CleanupInternals c) = None"
  by (simp_all add: CleanupInternals_def Let_def split: option.splits)

lemma CleanupInternals_released [simp]:
  "jingleDataChannel c = None \<Longrightarrow> CleanupInternals c = c"
  by (simp add: CleanupInternals_def)

lemma read_attributes_CleanupInternals [simp]:
  "read_attributes (CleanupInternals c) = read_attributes c"
  by (simp add: read_attributes_def CleanupInternals_def Let_def accessor_defs
      split: option.splits)



lemma Send_loop:
  "events (snd (Send jSend c arg)) = events c"
  "should_stop (snd (Send jSend c arg)) = should_stop c"
  "callbacks (snd (Send jSend c arg)) = callbacks c"
  by (cases arg; simp add: Send_def Let_def split: option.splits prod.splits)+


lemma Send_open_text:
  "jingleDataChannel c = Some j \<Longrightarrow> state j = kOpen \<Longrightarrow>
   Send jSend c (JsString str)
     = (Inr JsUndefined,
        c\<lparr>jingleDataChannel := Some (snd (jSend j \<lparr>data = str, binary = False\<rparr>))\<rparr>)"
  by (simp add: Send_def split: prod.splits)

lemma Send_open_binary:
  assumes "jingleDataChannel c = Some j" and "state j = kOpen"
  shows "Send jSend c (JsArrayBuffer content)
           = (Inr JsUndefined,
              c\<lparr>jingleDataChannel := Some (snd (jSend j \<lparr>data = content, binary = True\<rparr>))\<rparr>)"
    and "Send jSend c (JsTypedArray content byte_offset byte_length)
           = (Inr JsUndefined,
              c\<lparr>jingleDataChannel :=
                  Some (snd (jSend j \<lparr>data = take byte_length (drop byte_offset content),
                                       binary = True\<rparr>))\<rparr>)"
    and "Send jSend c (JsDataView content byte_offset byte_length)
           = (Inr JsUndefined,
              c\<lparr>jingleDataChannel :=
                  Some (snd (jSend j \<lparr>data = take byte_length (drop byte_offset content),
                                       binary = True\<rparr>))\<rparr>)"
  using assms by (simp_all add: Send_def split: prod.splits)

lemma Close_loop:
  "events (snd (Close jClose c)) = events c"
  "should_stop (snd (Close jClose c)) = should_stop c"
  "callbacks (snd (Close jClose c)) = callbacks c"
  by (simp_all add: Close_def split: option.splits)


lemma OnPeerConnectionClosed_loop:
  "events (OnPeerConnectionClosed c) = events c"
  "callbacks (OnPeerConnectionClosed c) = callbacks c"
  "should_stop c \<Longrightarrow> should_stop (OnPeerConnectionClosed c)"
  by (simp_all add: OnPeerConnectionClosed_def Stop_def)


lemma HandleMessage_binary:
  "binary buffer \<Longrightarrow>
   HandleMessage c buffer = Inr (MakeCallback c ''onmessage'' [JsArrayBuffer (data buffer)])"
  by (simp add: HandleMessage_def)

lemma deliver_fields:
  assumes "deliver e c = Inr c'"
  shows "jingleDataChannel c' = jingleDataChannel c"
    and "events c' = events c"
    and "cached_id c' = cached_id c" and "cached_label c' = cached_label c"
    and "cached_protocol c' = cached_protocol c" and "cached_ordered c' = cached_ordered c"
    and "cached_negotiated c' = cached_negotiated c"
    and "cached_max_retransmits c' = cached_max_retransmits c"
    and "cached_max_packet_life_time c' = cached_max_packet_life_time c"
    and "cached_buffered_amount c' = cached_buffered_amount c"
    and "should_stop c \<Longrightarrow> should_stop c'"
  using assms
  by (cases e; auto simp: HandleStateChange_def HandleMessage_def MakeCallback_def Stop_def
      Let_def split: if_splits sum.splits)+

lemma deliver_callbacks:
  assumes "deliver e c = Inr c'"
  shows "callbacks c' = callbacks c \<or>
         (\<exists>n. callbacks c' = callbacks c @ [n] \<and> (n = closed_notification \<longrightarrow> should_stop c'))"
  using assms
  by (cases e; auto simp: HandleStateChange_def HandleMessage_def MakeCallback_def Stop_def
      closed_notification_def Let_def String_New_def split: if_splits sum.splits)

lemma deliver_same_callbacks:
  assumes "deliver e c = Inr c'" and "callbacks a = callbacks c"
  shows "\<exists>a'. deliver e a = Inr a' \<and> callbacks a' = callbacks c'"
  using assms
  by (cases e; auto simp: HandleStateChange_def HandleMessage_def MakeCallback_def Stop_def
      Let_def split: if_splits sum.splits)

lemma deliver_all_same_callbacks:
  "deliver_all es c = Inr c' \<Longrightarrow> callbacks a = callbacks c \<Longrightarrow>
   \<exists>a'. deliver_all es a = Inr a' \<and> callbacks a' = callbacks c'"
proof (induction es arbitrary: c a)
  case Nil
  then show ?case by simp
next
  case (Cons e es)
  from Cons.prems(1) obtain c1 where d: "deliver e c = Inr c1"
    and r: "deliver_all es c1 = Inr c'"
    by (auto split: sum.splits)
  from deliver_same_callbacks [OF d Cons.prems(2)] obtain a1
    where d': "deliver e a = Inr a1" and cb: "callbacks a1 = callbacks c1" by blast
  from Cons.IH [OF r cb] d' show ?case by auto
qed

lemma requeue_fields:
  "events (requeue es c) = events c @ es"
  "callbacks (requeue es c) = callbacks c"
  "should_stop (requeue es c) = should_stop c"
  "jingleDataChannel (requeue es c) = jingleDataChannel c"
  by (induction es arbitrary: c; simp add: Dispatch_def)+

lemma new_RTCDataChannel_fields:
  "events (new_RTCDataChannel ob) = obs_events ob"
  "callbacks (new_RTCDataChannel ob) = []"
  "should_stop (new_RTCDataChannel ob) = False"
  "jingleDataChannel (new_RTCDataChannel ob) = Some ((obs_jingleDataChannel ob)\<lparr>observer := True\<rparr>)"
  by (simp_all add: new_RTCDataChannel_def Let_def requeue_fields)

subsection \<open>Steps and runs\<close>

lemma step_not_loop:
  assumes "step jSend jClose a c = Inr c'" and "a \<noteq> LoopTurn"
  shows "callbacks c' = callbacks c" and "events c' = events c @ announced a c"
    and "should_stop c \<Longrightarrow> should_stop c'"
  using assms
  by (cases a; auto simp: Send_loop Close_loop OnPeerConnectionClosed_loop OnStateChange_def
      OnMessage_def Dispatch_def Let_def split: option.splits if_splits)+



lemma step_closed_last:
  assumes "closed_last c" and "step jSend jClose a c = Inr c'"
  shows "closed_last c'"
proof (cases "a = LoopTurn")
  case False
  from step_not_loop [OF assms(2) False] assms(1) show ?thesis
    by (auto simp: closed_last_def)
next
  case True
  show ?thesis
  proof (cases "should_stop c \<or> events c = []")
    case True
    with \<open>a = LoopTurn\<close> assms show ?thesis
      by (auto simp: dispatch_next_def split: list.splits)
  next
    case False
    then obtain e rest where ev: "events c = e # rest" by (cases "events c") auto
    with False True assms have d: "deliver e (c\<lparr>events := rest\<rparr>) = Inr c'"
      by (simp add: dispatch_next_def)
    from False assms(1) have no: "closed_notification \<notin> set (callbacks c)"
      by (auto simp: closed_last_def)
    from deliver_callbacks [OF d] no show ?thesis
      by (auto simp: closed_last_def dest: in_set_butlastD)
  qed
qed

lemma run_closed_last:
  "closed_last c \<Longrightarrow> run jSend jClose acts c = Inr c' \<Longrightarrow> closed_last c'"
proof (induction acts arbitrary: c)
  case Nil
  then show ?case by simp
next
  case (Cons a acts)
  from Cons.prems(2) obtain c1 where s: "step jSend jClose a c = Inr c1"
    and r: "run jSend jClose acts c1 = Inr c'"
    by (auto split: sum.splits)
  from Cons.IH [OF step_closed_last [OF Cons.prems(1) s] r] show ?case .
qed


lemma run_fifo:
  "run jSend jClose acts c = Inr c' \<Longrightarrow>
   \<exists>consumed d. events c @ produced jSend jClose acts c = consumed @ events c'
     \<and> deliver_all consumed c = Inr d \<and> callbacks d = callbacks c'"
proof (induction acts arbitrary: c)
  case Nil
  then show ?case by (intro exI [of _ "[]"]) simp
next
  case (Cons a acts)
  from Cons.prems obtain c1 where s: "step jSend jClose a c = Inr c1"
    and r: "run jSend jClose acts c1 = Inr c'"
    by (auto split: sum.splits)
  from Cons.IH [OF r] obtain consumed d
    where q: "events c1 @ produced jSend jClose acts c1 = consumed @ events c'"
      and da: "deliver_all consumed c1 = Inr d" and cb: "callbacks d = callbacks c'"
    by blast
  show ?case
  proof (cases "a = LoopTurn")
    case False
    from step_not_loop(1,2) [OF s False]
    have c1: "callbacks c = callbacks c1" "events c1 = events c @ announced a c" by simp_all
    from deliver_all_same_callbacks [OF da c1(1)] obtain d'
      where "deliver_all consumed c = Inr d'" "callbacks d' = callbacks d" by blast
    with q c1 cb s show ?thesis
      by (intro exI [of _ consumed] exI [of _ d']) simp
  next
    case True
    show ?thesis
    proof (cases "should_stop c \<or> events c = []")
      case True
      with \<open>a = LoopTurn\<close> s have "c1 = c"
        by (auto simp: dispatch_next_def split: list.splits)
      with q da cb s \<open>a = LoopTurn\<close> show ?thesis
        by (intro exI [of _ consumed] exI [of _ d]) simp
    next
      case False
      then obtain e rest where ev: "events c = e # rest" by (cases "events c") auto
      with False True s have dl: "deliver e (c\<lparr>events := rest\<rparr>) = Inr c1"
        by (simp add: dispatch_next_def)
      from deliver_fields(2) [OF dl] have e1: "events c1 = rest" by simp
      have "callbacks c = callbacks (c\<lparr>events := rest\<rparr>)" by simp
      from deliver_same_callbacks [OF dl this] obtain c1'
        where dl': "deliver e c = Inr c1'" and cb1: "callbacks c1' = callbacks c1" by blast
      from deliver_all_same_callbacks [OF da cb1] obtain d'
        where "deliver_all consumed c1' = Inr d'" "callbacks d' = callbacks d" by blast
      with q e1 ev cb dl' s True show ?thesis
        by (intro exI [of _ "e # consumed"] exI [of _ d']) simp
    qed
  qed
qed

subsection \<open>Accessors\<close>

text \<open>
  C10. Reading \<^verbatim>\<open>priority\<close> returns the string "high" for every channel, whatever
  its state, its binding or its cached attributes.
\<close>

theorem GetPriority_is_high: "GetPriority c = ''high''"
  by (simp add: GetPriority_def)

subsection \<open>Send\<close>

text \<open>
  C1. The claim: on a channel that is not open, \<^verbatim>\<open>Send\<close> fails with an
  InvalidState error and hands nothing to the native channel. The code hands nothing
  over (\<open>Send_not_open\<close>: the channel comes back unchanged, \<open>jSend\<close> is not
  applied), but it raises nothing either: the error object is built and dropped, and
  \<^verbatim>\<open>Send\<close> returns \<^verbatim>\<open>undefined\<close> as after a successful send. Evaluated on a
  connecting channel and on a channel whose binding was released:
\<close>

theorem Send_not_open_returns_undefined:
  "Send accepting_Send (sample_channel kConnecting) (JsString ''hello'')
     = (Inr JsUndefined, sample_channel kConnecting)
   \<and> Send accepting_Send (CleanupInternals (sample_channel kClosed)) (JsString ''hello'')
     = (Inr JsUndefined, CleanupInternals (sample_channel kClosed))"
  by (simp add: Send_def sample_channel_simp sample_native_def CleanupInternals_def)

text \<open>
  C7. On an open channel, an argument that is neither a string, a typed array, a data
  view nor an array buffer makes \<^verbatim>\<open>Send\<close> raise a \<^verbatim>\<open>TypeError\<close>; the channel
  comes back unchanged and the native \<^verbatim>\<open>Send\<close> is not applied, so nothing is handed
  to the native channel.
\<close>

theorem Send_rejects_other_payload:
  assumes "jingleDataChannel c = Some j" and "state j = kOpen"
    and "\<not> IsString arg" and "\<not> IsTypedArray arg" and "\<not> IsDataView arg"
    and "\<not> IsArrayBuffer arg"
  shows "Send jSend c arg = (Inl (TypeError ''Expected a Blob or ArrayBuffer''), c)"
  using assms by (cases arg) (simp_all add: Send_def)

theorem Send_rejects_other_payload_witness:
  "jingleDataChannel (sample_channel kOpen) = Some ((sample_native kOpen)\<lparr>observer := True\<rparr>)
   \<and> state ((sample_native kOpen)\<lparr>observer := True\<rparr>) = kOpen
   \<and> \<not> IsString (JsNumber 42) \<and> \<not> IsTypedArray (JsNumber 42)
   \<and> \<not> IsDataView (JsNumber 42) \<and> \<not> IsArrayBuffer (JsNumber 42)
   \<and> Send accepting_Send (sample_channel kOpen) (JsNumber 42)
       = (Inl (TypeError ''Expected a Blob or ArrayBuffer''), sample_channel kOpen)"
proof -
  have b: "jingleDataChannel (sample_channel kOpen) = Some ((sample_native kOpen)\<lparr>observer := True\<rparr>)"
    by (simp add: sample_channel_simp)
  have s: "state ((sample_native kOpen)\<lparr>observer := True\<rparr>) = kOpen"
    by (simp add: sample_native_def)
  show ?thesis
    using b s Send_rejects_other_payload [OF b s, of "JsNumber 42" accepting_Send] by simp
qed

text \<open>
  The claim C4 as stated, that a failed write of the native channel reaches the caller
  of \<^verbatim>\<open>Send\<close> as an error, fails: the write below reports failure and
  \<^verbatim>\<open>Send\<close> returns \<^verbatim>\<open>undefined\<close> with no exception.
\<close>

theorem Send_write_failure_not_propagated:
  "fst (rejecting_Send ((sample_native kOpen)\<lparr>observer := True\<rparr>) \<lparr>data = ''hi'', binary = False\<rparr>)
     = False
   \<and> Send rejecting_Send (sample_channel kOpen) (JsString ''hi'')
     = (Inr JsUndefined, sample_channel kOpen)"
  by (simp add: Send_def rejecting_Send_def sample_channel_simp sample_native_def)

text \<open>
  C4, amended. On an open channel, \<^verbatim>\<open>Send\<close> with a string, an array buffer, a
  typed array or a data view hands the payload to the native channel once and returns
  \<^verbatim>\<open>undefined\<close> without an exception, whatever the native write reports: only the
  native channel's new state is kept, the reported result is not. The wrapper keeps its
  binding, so it does not close the channel.
\<close>

theorem Send_discards_write_result:
  assumes "jingleDataChannel c = Some j" and "state j = kOpen"
  shows "Send jSend c (JsString str)
           = (Inr JsUndefined,
              c\<lparr>jingleDataChannel := Some (snd (jSend j \<lparr>data = str, binary = False\<rparr>))\<rparr>)
    \<and> Send jSend c (JsArrayBuffer content)
           = (Inr JsUndefined,
              c\<lparr>jingleDataChannel := Some (snd (jSend j \<lparr>data = content, binary = True\<rparr>))\<rparr>)
    \<and> Send jSend c (JsTypedArray content byte_offset byte_length)
           = (Inr JsUndefined,
              c\<lparr>jingleDataChannel :=
                  Some (snd (jSend j \<lparr>data = take byte_length (drop byte_offset content),
                                       binary = True\<rparr>))\<rparr>)
    \<and> Send jSend c (JsDataView content byte_offset byte_length)
           = (Inr JsUndefined,
              c\<lparr>jingleDataChannel :=
                  Some (snd (jSend j \<lparr>data = take byte_length (drop byte_offset content),
                                       binary = True\<rparr>))\<rparr>)"
  using Send_open_text [OF assms] Send_open_binary [OF assms] by simp

theorem Send_discards_write_result_witness:
  "jingleDataChannel (sample_channel kOpen) = Some ((sample_native kOpen)\<lparr>observer := True\<rparr>)
   \<and> state ((sample_native kOpen)\<lparr>observer := True\<rparr>) = kOpen
   \<and> Send rejecting_Send (sample_channel kOpen) (JsString ''hi'')
       = (Inr JsUndefined, sample_channel kOpen)
   \<and> Send rejecting_Send (sample_channel kOpen) (JsTypedArray ''abcdef'' 2 3)
       = (Inr JsUndefined, sample_channel kOpen)
   \<and> jingleDataChannel (snd (Send rejecting_Send (sample_channel kOpen) (JsArrayBuffer ''abcdef'')))
       \<noteq> None"
proof -
  have b: "jingleDataChannel (sample_channel kOpen) = Some ((sample_native kOpen)\<lparr>observer := True\<rparr>)"
    by (simp add: sample_channel_simp)
  have s: "state ((sample_native kOpen)\<lparr>observer := True\<rparr>) = kOpen"
    by (simp add: sample_native_def)
  show ?thesis
    using b s same_binding [OF b]
      Send_discards_write_result [OF b s, of rejecting_Send "''hi''" "''abcdef''" 2 3]
    by (simp add: rejecting_Send_def)
qed

text \<open>
  The claim C8 as stated, that an empty binary payload is rejected, fails: an empty
  array buffer on an open channel is handed to the native channel as a binary buffer of
  length zero, and \<^verbatim>\<open>Send\<close> returns \<^verbatim>\<open>undefined\<close> with no exception.
\<close>

theorem Send_empty_binary_accepted:
  "Send accepting_Send (sample_channel kOpen) (JsArrayBuffer [])
     = (Inr JsUndefined,
        (sample_channel kOpen)\<lparr>jingleDataChannel :=
           Some ((sample_native kOpen)\<lparr>observer := True, sent := [\<lparr>data = [], binary = True\<rparr>]\<rparr>)\<rparr>)"
  by (simp add: Send_def accepting_Send_def sample_channel_simp sample_native_def)

text \<open>
  C8, amended. \<^verbatim>\<open>Send\<close> checks no length: on an open channel an empty binary
  payload (an empty array buffer, or a view of byte length zero) and an empty text
  payload are both handed to the native channel, as a buffer of length zero flagged
  binary or text, and \<^verbatim>\<open>Send\<close> returns \<^verbatim>\<open>undefined\<close> without an exception.
\<close>

theorem Send_checks_no_length:
  assumes "jingleDataChannel c = Some j" and "state j = kOpen"
  shows "Send jSend c (JsArrayBuffer [])
           = (Inr JsUndefined,
              c\<lparr>jingleDataChannel := Some (snd (jSend j \<lparr>data = [], binary = True\<rparr>))\<rparr>)
    \<and> Send jSend c (JsTypedArray content byte_offset 0)
           = (Inr JsUndefined,
              c\<lparr>jingleDataChannel := Some (snd (jSend j \<lparr>data = [], binary = True\<rparr>))\<rparr>)
    \<and> Send jSend c (JsDataView content byte_offset 0)
           = (Inr JsUndefined,
              c\<lparr>jingleDataChannel := Some (snd (jSend j \<lparr>data = [], binary = True\<rparr>))\<rparr>)
    \<and> Send jSend c (JsString [])
           = (Inr JsUndefined,
              c\<lparr>jingleDataChannel := Some (snd (jSend j \<lparr>data = [], binary = False\<rparr>))\<rparr>)"
  using Send_open_text [OF assms] Send_open_binary [OF assms] by simp

theorem Send_checks_no_length_witness:
  "jingleDataChannel (sample_channel kOpen) = Some ((sample_native kOpen)\<lparr>observer := True\<rparr>)
   \<and> state ((sample_native kOpen)\<lparr>observer := True\<rparr>) = kOpen
   \<and> Send accepting_Send (sample_channel kOpen) (JsTypedArray ''abc'' 1 0)
       = (Inr JsUndefined,
          (sample_channel kOpen)\<lparr>jingleDataChannel :=
             Some ((sample_native kOpen)\<lparr>observer := True, sent := [\<lparr>data = [], binary = True\<rparr>]\<rparr>)\<rparr>)
   \<and> Send accepting_Send (sample_channel kOpen) (JsString [])
       = (Inr JsUndefined,
          (sample_channel kOpen)\<lparr>jingleDataChannel :=
             Some ((sample_native kOpen)\<lparr>observer := True, sent := [\<lparr>data = [], binary = False\<rparr>]\<rparr>)\<rparr>)"
proof -
  have b: "jingleDataChannel (sample_channel kOpen) = Some ((sample_native kOpen)\<lparr>observer := True\<rparr>)"
    by (simp add: sample_channel_simp)
  have s: "state ((sample_native kOpen)\<lparr>observer := True\<rparr>) = kOpen"
    by (simp add: sample_native_def)
  show ?thesis
    using b s Send_checks_no_length [OF b s, of accepting_Send "''abc''" 1]
    by (simp add: accepting_Send_def sample_native_def)
qed

subsection \<open>Received messages\<close>

text \<open>
  C3. The claim: a received message reaches the listener once, with its length and
  content kept and tagged binary or text. A binary message does (\<open>HandleMessage_binary\<close>).
  A text message does not: its bytes are read as a NUL-terminated string, so a text
  with a NUL inside is cut there, and a text without one is read past the end of the
  copy.
\<close>

theorem HandleMessage_text_cut_at_NUL:
  "HandleMessage (sample_channel kOpen) \<lparr>data = [CHR ''a'', CHR 0x00, CHR ''b''], binary = False\<rparr>
     = Inr (MakeCallback (sample_channel kOpen) ''onmessage'' [JsString ''a''])
   \<and> HandleMessage (sample_channel kOpen) \<lparr>data = ''hello'', binary = False\<rparr>
     = Inl BufferOverread"
  by (simp add: HandleMessage_def String_New_def)

subsection \<open>Teardown and the snapshot\<close>






subsection \<open>Close\<close>




subsection \<open>Order of notifications\<close>

text \<open>
  C6. For a channel built from any observer and any run of it: the events consumed so
  far are the oldest of the events produced (those the observer had cached, then those
  announced during the run), the rest is still queued in the same order, and the
  listeners were called exactly as the handlers call them on the consumed events in
  that order. The closed notification, when it was given, is the last call.
\<close>

theorem notifications_fifo_closed_last:
  assumes "run jSend jClose acts (new_RTCDataChannel ob) = Inr c"
  shows "(\<exists>consumed d.
            obs_events ob @ produced jSend jClose acts (new_RTCDataChannel ob)
              = consumed @ events c
            \<and> deliver_all consumed (new_RTCDataChannel ob) = Inr d
            \<and> callbacks d = callbacks c)
         \<and> closed_notification \<notin> set (butlast (callbacks c))"
proof -
  have "closed_last (new_RTCDataChannel ob)"
    by (simp add: closed_last_def new_RTCDataChannel_fields)
  from run_closed_last [OF this assms] have "closed_notification \<notin> set (butlast (callbacks c))"
    by (simp add: closed_last_def)
  with run_fifo [OF assms] show ?thesis
    by (simp add: new_RTCDataChannel_fields)
qed

theorem notifications_fifo_closed_last_witness:
  "\<exists>c. run accepting_Send closing_Close sample_actions (new_RTCDataChannel sample_observer) = Inr c
     \<and> callbacks c =
         [(''onstatechange'', [JsString ''open'']),
          (''onmessage'', [JsArrayBuffer ''hi'']),
          (''onmessage'', [JsString ''ok'']),
          closed_notification]
     \<and> closed_notification \<notin> set (butlast (callbacks c))
     \<and> (\<exists>consumed d.
            obs_events sample_observer
              @ produced accepting_Send closing_Close sample_actions (new_RTCDataChannel sample_observer)
              = consumed @ events c
            \<and> deliver_all consumed (new_RTCDataChannel sample_observer) = Inr d
            \<and> callbacks d = callbacks c)"
proof -
  have "\<exists>c. run accepting_Send closing_Close sample_actions (new_RTCDataChannel sample_observer) = Inr c
     \<and> callbacks c =
         [(''onstatechange'', [JsString ''open'']),
          (''onmessage'', [JsArrayBuffer ''hi'']),
          (''onmessage'', [JsString ''ok'']),
          closed_notification]"
    by (simp add: sample_actions_def sample_observer_simp new_RTCDataChannel_def
        sample_native_def Dispatch_def dispatch_next_def HandleStateChange_def
        HandleMessage_def String_New_def MakeCallback_def Stop_def OnMessage_def
        OnStateChange_def CleanupInternals_def Close_def closing_Close_def Send_def
        closed_notification_def Let_def)
  then obtain c where
    r: "run accepting_Send closing_Close sample_actions (new_RTCDataChannel sample_observer) = Inr c"
    and cb: "callbacks c =
         [(''onstatechange'', [JsString ''open'']),
          (''onmessage'', [JsArrayBuffer ''hi'']),
          (''onmessage'', [JsString ''ok'']),
          closed_notification]"
    by blast
  from notifications_fifo_closed_last [OF r] r cb show ?thesis by blast
qed

end
